theory Spec2Isabelle
  imports Main
begin

section \<open>C integers\<close>

text \<open>
  The source is C++ on a 64-bit POSIX system: \<open>int\<close> has 32 bits, \<open>size_t\<close>,
  \<open>ssize_t\<close> and \<open>time_t\<close> have 64. Values are modelled as \<open>int\<close> (signed) and
  \<open>nat\<close> (\<open>size_t\<close>); the one conversion the source relies on, a wider value returned
  through a function whose return type is \<open>int\<close>, is written out as \<open>to_int\<close>.
\<close>

definition to_int :: "int \<Rightarrow> int" where
  "to_int v = (v + 2147483648) mod 4294967296 - 2147483648"

text \<open>The same for \<open>long\<close> (64 bits), the type of the fields of \<open>mq_attr\<close>.\<close>

definition to_long :: "int \<Rightarrow> int" where
  "to_long v = (v + 9223372036854775808) mod 18446744073709551616 - 9223372036854775808"

definition fits_int :: "int \<Rightarrow> bool" where
  "fits_int v = (- 2147483648 \<le> v \<and> v \<le> 2147483647)"

text \<open>C's \<open>/\<close> and \<open>%\<close> truncate towards zero.\<close>

definition c_div :: "int \<Rightarrow> int \<Rightarrow> int" where
  "c_div a b = sgn a * sgn b * (\<bar>a\<bar> div \<bar>b\<bar>)"

definition c_mod :: "int \<Rightarrow> int \<Rightarrow> int" where
  "c_mod a b = a - b * c_div a b"

section \<open>Constants of the system headers\<close>

text \<open>
  The open flags of \<open>fcntl.h\<close>, \<open>FD_SETSIZE\<close> of \<open>sys/select.h\<close> and the
  \<open>sysconf\<close> name \<open>_SC_MQ_PRIO_MAX\<close> of \<open>unistd.h\<close>, with their Linux (glibc,
  x86-64) values. \<open>_SC_MQ_PRIO_MAX\<close> is the 29th enumerator of the \<open>sysconf\<close>
  names, not a priority: POSIX message priorities run from 0, the lowest
  (\<open>MQ_PRIO_MIN\<close> here), to \<open>MQ_PRIO_MAX - 1\<close>. \<open>IPC_INVALID_FD\<close> is the source's own
  macro.
\<close>

definition O_RDONLY :: int where "O_RDONLY = 0"
definition O_WRONLY :: int where "O_WRONLY = 1"
definition O_RDWR :: int where "O_RDWR = 2"
definition O_CREAT :: int where "O_CREAT = 64"
definition O_EXCL :: int where "O_EXCL = 128"
definition O_TRUNC :: int where "O_TRUNC = 512"
definition O_APPEND :: int where "O_APPEND = 1024"
definition SC_MQ_PRIO_MAX :: nat where "SC_MQ_PRIO_MAX = 28"
definition MQ_PRIO_MIN :: nat where "MQ_PRIO_MIN = 0"
definition IPC_INVALID_FD :: int where "IPC_INVALID_FD = - 1"
definition FD_SETSIZE :: int where "FD_SETSIZE = 1024"

text \<open>
  The flag sets are disjoint bits, so \<open>|\<close> on them is \<open>+\<close>.
\<close>

section \<open>The kernel as seen by the program\<close>

text \<open>
  Every system and library call the source makes is a \<open>syscall\<close> value; \<open>calls\<close>
  records them in the order issued, and \<open>kernel\<close> answers each one from the calls
  before it. \<open>clock\<close> is the reading of CLOCK_REALTIME (seconds, nanoseconds), which
  the timed message-queue calls compare their deadline with. A buffer is its address.
\<close>

type_synonym ptr = nat
type_synonym fd_set = "int set"
type_synonym timeval = "int \<times> int"
type_synonym timespec = "int \<times> int"

datatype syscall =
    Sys_select int "fd_set option" "fd_set option" "fd_set option" "timeval option"
  | Sys_write int ptr nat
  | Sys_read int ptr nat
  | Sys_close int
  | Sys_pipe
  | Sys_mkfifo string int
  | Sys_open string int
  | Sys_mq_open string int int int int
  | Sys_mq_close int
  | Sys_mq_unlink string
  | Sys_mq_send int ptr nat nat
  | Sys_mq_timedsend int ptr nat nat timespec
  | Sys_mq_receive int ptr nat
  | Sys_mq_timedreceive int ptr nat timespec
  | Sys_sem_open string int int nat
  | Sys_sem_close int
  | Sys_sem_unlink string
  | Sys_shm_open string int int
  | Sys_shm_unlink string
  | Sys_munmap int nat

text \<open>
  The arguments, in the order of the C prototypes:
  \<^item> \<open>Sys_select nfds readfds writefds exceptfds timeout\<close>, a null pointer being
    \<open>None\<close> and a \<open>timeval\<close> being (seconds, microseconds);
  \<^item> \<open>Sys_write fd buf count\<close>, \<open>Sys_read fd buf count\<close>, \<open>Sys_close fd\<close>,
    \<open>Sys_pipe\<close>, \<open>Sys_mkfifo path mode\<close>, \<open>Sys_open path flags\<close>;
  \<^item> \<open>Sys_mq_open name oflag mode mq_msgsize mq_maxmsg\<close> (the last two are the
    fields, of type \<open>long\<close>, of the \<open>mq_attr\<close> passed), \<open>Sys_mq_close mqdes\<close>, \<open>Sys_mq_unlink name\<close>;
  \<^item> \<open>Sys_mq_send mqdes msg_ptr msg_len msg_prio\<close> and \<open>Sys_mq_timedsend\<close> with the
    \<open>timespec\<close> (seconds, nanoseconds) of the absolute deadline last;
  \<^item> \<open>Sys_mq_receive mqdes msg_ptr msg_len\<close> and \<open>Sys_mq_timedreceive\<close> with the
    deadline last (the priority is an output);
  \<^item> \<open>Sys_sem_open name oflag mode value\<close>, \<open>Sys_sem_close sem\<close>,
    \<open>Sys_sem_unlink name\<close>, \<open>Sys_shm_open name oflag mode\<close>, \<open>Sys_shm_unlink name\<close>,
    \<open>Sys_munmap addr length\<close>.
\<close>

text \<open>
  A reply: the call's return value \<open>rv\<close>; for \<open>select\<close>, the descriptor set as the
  call leaves it (\<open>rset\<close>); for \<open>pipe\<close>, the two descriptors it stores (\<open>rpair\<close>).
\<close>

record reply =
  rv :: int
  rset :: fd_set
  rpair :: "int \<times> int"

record world =
  calls :: "syscall list"
  kernel :: "syscall list \<Rightarrow> syscall \<Rightarrow> reply"
  clock :: timespec

definition sys :: "syscall \<Rightarrow> world \<Rightarrow> reply \<times> world" where
  "sys c w = (kernel w (calls w) c, w\<lparr>calls := calls w @ [c]\<rparr>)"

text \<open>The exceptions the constructors throw.\<close>

datatype exn = Runtime_error string | Invalid_argument string | Logic_error

section \<open>Free functions of posix\_ipc.cc\<close>

definition trans_mode :: "char \<Rightarrow> int" where
  "trans_mode mode =
     (if mode = CHR ''r'' then O_RDONLY
      else if mode = CHR ''a'' then O_WRONLY + O_CREAT + O_APPEND
      else if mode = CHR ''w'' then O_WRONLY + O_CREAT + O_TRUNC
      else if mode = CHR ''m'' then O_WRONLY + O_CREAT
      else if mode = CHR ''d'' then O_RDWR + O_CREAT + O_APPEND
      else - 1)"

text \<open>
  \<open>wait_write\<close>: the set holds \<open>fd\<close> alone; \<open>tv\<close> is filled and passed only when
  \<open>wait >= 0\<close>, otherwise the timeout argument is the null pointer. \<open>FD_SET\<close> and
  \<open>FD_ISSET\<close> are defined for \<open>0 <= fd < FD_SETSIZE\<close> only; the sets of the model
  have no such bound, so the theorems about the probe assume it.
\<close>

definition wait_write :: "int \<Rightarrow> int \<Rightarrow> world \<Rightarrow> int \<times> world" where
  "wait_write fd wait w =
     (let wfds = {fd};
          tv = (if wait \<ge> 0 then Some (c_div wait 1000, c_mod wait 1000 * 1000) else None);
          (r, w') = sys (Sys_select (fd + 1) None (Some wfds) None tv) w
      in if rv r < 0 then (- 1, w')
         else if rv r = 0 then (0, w')
         else if fd \<in> rset r then (1, w')
         else (0, w'))"

definition wait_read :: "int \<Rightarrow> int \<Rightarrow> world \<Rightarrow> int \<times> world" where
  "wait_read fd wait w =
     (let rfds = {fd};
          tv = (if wait \<ge> 0 then Some (c_div wait 1000, c_mod wait 1000 * 1000) else None);
          (r, w') = sys (Sys_select (fd + 1) (Some rfds) None None tv) w
      in if rv r < 0 then (- 1, w')
         else if rv r = 0 then (0, w')
         else if fd \<in> rset r then (1, w')
         else (0, w'))"

text \<open>
  \<open>ipc::write\<close> and \<open>ipc::read\<close>. The system call returns \<open>ssize_t\<close>, the function
  \<open>int\<close>.
\<close>

definition ipc_write :: "int \<Rightarrow> ptr \<Rightarrow> nat \<Rightarrow> int \<Rightarrow> world \<Rightarrow> int \<times> world" where
  "ipc_write fd data len wait w =
     (let (ret, w1) = wait_write fd wait w
      in if ret = 1 then (let (r, w2) = sys (Sys_write fd data len) w1 in (to_int (rv r), w2))
         else if ret < 0 then (- 1, w1)
         else (0, w1))"

definition ipc_read :: "int \<Rightarrow> ptr \<Rightarrow> nat \<Rightarrow> int \<Rightarrow> world \<Rightarrow> int \<times> world" where
  "ipc_read fd data len wait w =
     (let (ret, w1) = wait_read fd wait w
      in if ret = 1 then (let (r, w2) = sys (Sys_read fd data len) w1 in (to_int (rv r), w2))
         else if ret < 0 then (- 1, w1)
         else (0, w1))"

section \<open>Pipe\<close>

text \<open>\<open>pipe0\<close> is \<open>pipe_[0]\<close>, the read end; \<open>pipe1\<close> is \<open>pipe_[1]\<close>, the write end.\<close>

record Pipe =
  pipe0 :: int
  pipe1 :: int

definition Pipe_ctor :: "world \<Rightarrow> (exn + Pipe) \<times> world" where
  "Pipe_ctor w =
     (let (r, w') = sys Sys_pipe w
      in if rv r < 0 then (Inl (Runtime_error ''open pipe error''), w')
         else (Inr \<lparr>pipe0 = fst (rpair r), pipe1 = snd (rpair r)\<rparr>, w'))"

definition Pipe_close_r :: "Pipe \<Rightarrow> world \<Rightarrow> Pipe \<times> world" where
  "Pipe_close_r p w =
     (let w' = (if pipe0 p \<ge> 0 then snd (sys (Sys_close (pipe0 p)) w) else w)
      in (p\<lparr>pipe0 := IPC_INVALID_FD\<rparr>, w'))"

definition Pipe_close_w :: "Pipe \<Rightarrow> world \<Rightarrow> Pipe \<times> world" where
  "Pipe_close_w p w =
     (let w' = (if pipe1 p \<ge> 0 then snd (sys (Sys_close (pipe1 p)) w) else w)
      in (p\<lparr>pipe1 := IPC_INVALID_FD\<rparr>, w'))"

definition Pipe_close :: "Pipe \<Rightarrow> world \<Rightarrow> Pipe \<times> world" where
  "Pipe_close p w = (let (p1, w1) = Pipe_close_w p w in Pipe_close_r p1 w1)"

definition Pipe_write :: "Pipe \<Rightarrow> ptr \<Rightarrow> nat \<Rightarrow> int \<Rightarrow> world \<Rightarrow> int \<times> world" where
  "Pipe_write p data len wait w =
     (if pipe1 p < 0 then (- 1, w) else ipc_write (pipe1 p) data len wait w)"

definition Pipe_read :: "Pipe \<Rightarrow> ptr \<Rightarrow> nat \<Rightarrow> int \<Rightarrow> world \<Rightarrow> int \<times> world" where
  "Pipe_read p data len wait w =
     (if pipe0 p < 0 then (- 1, w) else ipc_read (pipe0 p) data len wait w)"

section \<open>Fifo\<close>

text \<open>
  A \<open>const char*\<close> argument is \<open>None\<close> when null. The member initialiser
  \<open>path_(path)\<close> runs before the constructor's body and fails on a null pointer
  (libstdc++ throws \<open>std::logic_error\<close>), so the body's own \<open>!path\<close> test is reached
  with a path only.
\<close>

record Fifo =
  Fifo_path :: string
  Fifo_fd :: int

definition Fifo_ctor :: "string option \<Rightarrow> char \<Rightarrow> world \<Rightarrow> (exn + Fifo) \<times> world" where
  "Fifo_ctor path mode w =
     (case path of
        None \<Rightarrow> (Inl Logic_error, w)
      | Some p \<Rightarrow>
          if trans_mode mode < 0 then (Inl (Invalid_argument ''path or mode error''), w)
          else (let (r, w') = sys (Sys_mkfifo p (trans_mode mode)) w
                in if rv r < 0 then (Inl (Runtime_error ''mkfifo error''), w')
                   else (Inr \<lparr>Fifo_path = p, Fifo_fd = IPC_INVALID_FD\<rparr>, w')))"

definition Fifo_open :: "Fifo \<Rightarrow> char \<Rightarrow> world \<Rightarrow> (bool \<times> Fifo) \<times> world" where
  "Fifo_open f mode w =
     (if Fifo_fd f \<ge> 0 then ((False, f), w)
      else if trans_mode mode < 0 then ((False, f), w)
      else (let (r, w') = sys (Sys_open (Fifo_path f) (trans_mode mode)) w
            in if rv r < 0 then ((False, f\<lparr>Fifo_fd := IPC_INVALID_FD\<rparr>), w')
               else ((True, f\<lparr>Fifo_fd := rv r\<rparr>), w')))"

definition Fifo_close :: "Fifo \<Rightarrow> world \<Rightarrow> Fifo \<times> world" where
  "Fifo_close f w =
     (if Fifo_fd f \<ge> 0 then (f\<lparr>Fifo_fd := IPC_INVALID_FD\<rparr>, snd (sys (Sys_close (Fifo_fd f)) w))
      else (f, w))"

definition Fifo_write :: "Fifo \<Rightarrow> ptr \<Rightarrow> nat \<Rightarrow> int \<Rightarrow> world \<Rightarrow> int \<times> world" where
  "Fifo_write f data len wait w =
     (if Fifo_fd f < 0 then (- 1, w) else ipc_write (Fifo_fd f) data len wait w)"

definition Fifo_read :: "Fifo \<Rightarrow> ptr \<Rightarrow> nat \<Rightarrow> int \<Rightarrow> world \<Rightarrow> int \<times> world" where
  "Fifo_read f data len wait w =
     (if Fifo_fd f < 0 then (- 1, w) else ipc_read (Fifo_fd f) data len wait w)"

section \<open>PosixMsgQueue\<close>

text \<open>
  The constructor fills \<open>mq_attr\<close> with \<open>mq_msgsize = maxmsg_\<close> (a \<open>size_t\<close> stored
  in a \<open>long\<close>) and \<open>mq_maxmsg = 20\<close> and calls \<open>mq_open(path, trans_mode(mode), 0666, &attr)\<close>; it does not look at
  what \<open>trans_mode\<close> returned. \<open>srv\<close> is unused.
\<close>

record PosixMsgQueue =
  mq_fd :: int
  mq_path :: string
  mq_maxmsg :: nat

definition PosixMsgQueue_ctor ::
  "string option \<Rightarrow> char \<Rightarrow> nat \<Rightarrow> bool \<Rightarrow> world \<Rightarrow> (exn + PosixMsgQueue) \<times> world" where
  "PosixMsgQueue_ctor path mode maxmsg srv w =
     (case path of
        None \<Rightarrow> (Inl Logic_error, w)
      | Some p \<Rightarrow>
          (let (r, w') = sys (Sys_mq_open p (trans_mode mode) 438 (to_long (int maxmsg)) 20) w
           in if rv r < 0 then (Inl (Runtime_error ''open msg queue error''), w')
              else (Inr \<lparr>mq_fd = rv r, mq_path = p, mq_maxmsg = maxmsg\<rparr>, w')))"

definition PosixMsgQueue_close :: "PosixMsgQueue \<Rightarrow> world \<Rightarrow> PosixMsgQueue \<times> world" where
  "PosixMsgQueue_close q w =
     (if mq_fd q \<ge> 0 then (q\<lparr>mq_fd := IPC_INVALID_FD\<rparr>, snd (sys (Sys_mq_close (mq_fd q)) w))
      else (q, w))"

definition PosixMsgQueue_destroy :: "PosixMsgQueue \<Rightarrow> world \<Rightarrow> PosixMsgQueue \<times> world" where
  "PosixMsgQueue_destroy q w =
     (let (q1, w1) = PosixMsgQueue_close q w
      in (q1, snd (sys (Sys_mq_unlink (mq_path q1)) w1)))"

text \<open>
  \<open>write\<close>: the \<open>timespec\<close> handed to \<open>mq_timedsend\<close> is built from \<open>wait\<close> alone,
  \<open>{wait / 1000, wait % 1000 * 1000}\<close>; no clock is read. \<open>len\<close> (\<open>size_t\<close>) is
  returned through \<open>int\<close>.
\<close>

definition PosixMsgQueue_write ::
  "PosixMsgQueue \<Rightarrow> ptr \<Rightarrow> nat \<Rightarrow> int \<Rightarrow> world \<Rightarrow> int \<times> world" where
  "PosixMsgQueue_write q data len wait w =
     (if mq_fd q < 0 then (- 1, w)
      else if wait < 0 then
        (let (r, w') = sys (Sys_mq_send (mq_fd q) data len SC_MQ_PRIO_MAX) w
         in if rv r < 0 then (- 1, w') else (to_int (int len), w'))
      else
        (let abs_timeout = (c_div wait 1000, c_mod wait 1000 * 1000);
             (r, w') = sys (Sys_mq_timedsend (mq_fd q) data len SC_MQ_PRIO_MAX abs_timeout) w
         in if rv r < 0 then (- 1, w') else (to_int (int len), w')))"

text \<open>
  \<open>read\<close>: the buffer length handed to the receive call is \<open>maxmsg_\<close>, not \<open>len\<close>.
\<close>

definition PosixMsgQueue_read ::
  "PosixMsgQueue \<Rightarrow> ptr \<Rightarrow> nat \<Rightarrow> int \<Rightarrow> world \<Rightarrow> int \<times> world" where
  "PosixMsgQueue_read q data len wait w =
     (if mq_fd q < 0 then (- 1, w)
      else if len > mq_maxmsg q then (- 1, w)
      else if wait < 0 then
        (let (r, w') = sys (Sys_mq_receive (mq_fd q) data (mq_maxmsg q)) w
         in (to_int (rv r), w'))
      else
        (let abs_timeout = (c_div wait 1000, c_mod wait 1000 * 1000);
             (r, w') = sys (Sys_mq_timedreceive (mq_fd q) data (mq_maxmsg q) abs_timeout) w
         in (to_int (rv r), w')))"

section \<open>NameSem\<close>

text \<open>\<open>ns_sem\<close> is the pointer \<open>sem_\<close>; 0 is the null pointer and \<open>SEM_FAILED\<close>.\<close>

record NameSem =
  ns_sem :: int
  ns_name :: string

definition NameSem_ctor :: "string option \<Rightarrow> bool \<Rightarrow> world \<Rightarrow> (exn + NameSem) \<times> world" where
  "NameSem_ctor name srv w =
     (case name of
        None \<Rightarrow> (Inl Logic_error, w)
      | Some n \<Rightarrow>
          (let (r, w') = sys (Sys_sem_open n (if srv then O_CREAT + O_EXCL else O_CREAT) 438 1) w
           in if rv r = 0 then (Inl (Runtime_error ''open sem error''), w')
              else (Inr \<lparr>ns_sem = rv r, ns_name = n\<rparr>, w')))"

definition NameSem_close :: "NameSem \<Rightarrow> world \<Rightarrow> NameSem \<times> world" where
  "NameSem_close s w =
     (if ns_sem s \<noteq> 0 then (s\<lparr>ns_sem := 0\<rparr>, snd (sys (Sys_sem_close (ns_sem s)) w))
      else (s, w))"

definition NameSem_unlink :: "NameSem \<Rightarrow> world \<Rightarrow> NameSem \<times> world" where
  "NameSem_unlink s w =
     (let (s1, w1) = NameSem_close s w
      in (s1, snd (sys (Sys_sem_unlink (ns_name s1)) w1)))"


section \<open>Sem\<close>

text \<open>
  The unnamed semaphore lives in the instance itself, so the behaviour of the library
  is modelled on the object: \<open>Live n\<close> is a semaphore initialised by \<open>sem_init\<close>
  with count \<open>n\<close>; \<open>Uninit\<close> is memory that holds no initialised semaphore (the
  zero-filled member). POSIX defines \<open>sem_wait\<close>, \<open>sem_trywait\<close> and \<open>sem_post\<close> on
  an initialised semaphore only. \<open>sem_destroy\<close> is glibc's, as the constants above
  are: it returns 0 and does not touch its argument, whatever the memory holds. One
  thread uses the semaphore and no signal interrupts it, so \<open>sem_wait\<close> at count 0
  does not return.
\<close>

datatype sem_t = Uninit | Live nat

datatype 'a outcome = Returns 'a | Blocks | Undefined

definition SEM_VALUE_MAX :: nat where "SEM_VALUE_MAX = 2147483647"

fun sem_init :: "sem_t \<Rightarrow> int \<Rightarrow> nat \<Rightarrow> (int \<times> sem_t) outcome" where
  "sem_init Uninit pshared v =
     (if v > SEM_VALUE_MAX then Returns (- 1, Uninit) else Returns (0, Live v))"
| "sem_init (Live n) pshared v = Undefined"

definition sem_destroy :: "sem_t \<Rightarrow> (int \<times> sem_t) outcome" where
  "sem_destroy s = Returns (0, s)"

fun sem_wait :: "sem_t \<Rightarrow> (int \<times> sem_t) outcome" where
  "sem_wait (Live (Suc n)) = Returns (0, Live n)"
| "sem_wait (Live 0) = Blocks"
| "sem_wait Uninit = Undefined"

fun sem_trywait :: "sem_t \<Rightarrow> (int \<times> sem_t) outcome" where
  "sem_trywait (Live (Suc n)) = Returns (0, Live n)"
| "sem_trywait (Live 0) = Returns (- 1, Live 0)"
| "sem_trywait Uninit = Undefined"

fun sem_post :: "sem_t \<Rightarrow> (int \<times> sem_t) outcome" where
  "sem_post (Live n) =
     (if n < SEM_VALUE_MAX then Returns (0, Live (Suc n)) else Returns (- 1, Live n))"
| "sem_post Uninit = Undefined"

record Sem =
  Sem_sem :: sem_t

text \<open>\<open>Sem_sem\<close> is the member \<open>sem_\<close>. The constructor zero-fills it, then \<open>sem_init(&sem_, shared ? 1 : 0, 1)\<close>.\<close>

definition Sem_ctor :: "bool \<Rightarrow> (exn + Sem) outcome" where
  "Sem_ctor shared =
     (case sem_init Uninit (if shared then 1 else 0) 1 of
        Returns (r, s) \<Rightarrow>
          if r < 0 then Returns (Inl (Runtime_error ''sem init error''))
          else Returns (Inr \<lparr>Sem_sem = s\<rparr>)
      | Blocks \<Rightarrow> Blocks
      | Undefined \<Rightarrow> Undefined)"

text \<open>\<open>close\<close>: \<open>sem_destroy(&sem_)\<close>, result unused, then the zero-fill. No test
  precedes the call.\<close>

definition Sem_close :: "Sem \<Rightarrow> Sem outcome" where
  "Sem_close x =
     (case sem_destroy (Sem_sem x) of
        Returns (r, s) \<Rightarrow> Returns (x\<lparr>Sem_sem := Uninit\<rparr>)
      | Blocks \<Rightarrow> Blocks
      | Undefined \<Rightarrow> Undefined)"

definition Sem_sem_p :: "Sem \<Rightarrow> bool \<Rightarrow> (bool \<times> Sem) outcome" where
  "Sem_sem_p x block =
     (case (if \<not> block then sem_trywait (Sem_sem x) else sem_wait (Sem_sem x)) of
        Returns (r, s) \<Rightarrow> Returns (0 = r, x\<lparr>Sem_sem := s\<rparr>)
      | Blocks \<Rightarrow> Blocks
      | Undefined \<Rightarrow> Undefined)"

definition Sem_sem_v :: "Sem \<Rightarrow> (bool \<times> Sem) outcome" where
  "Sem_sem_v x =
     (case sem_post (Sem_sem x) of
        Returns (r, s) \<Rightarrow> Returns (0 = r, x\<lparr>Sem_sem := s\<rparr>)
      | Blocks \<Rightarrow> Blocks
      | Undefined \<Rightarrow> Undefined)"

section \<open>PosixShareMem\<close>

text \<open>
  \<open>shm_addr\<close> is the pointer \<open>addr_\<close> (0 when null). The constructor does not
  initialise \<open>len_\<close>: \<open>junk\<close> stands for what the member holds then. No member
  function of the class assigns \<open>addr_\<close> after the constructor; \<open>map\<close>, which
  assigns \<open>len_\<close> only and whose call of \<open>mmap\<close> does not fit the system's
  prototype, is left out.
\<close>

record PosixShareMem =
  shm_addr :: int
  shm_fd :: int
  shm_len :: nat
  shm_name :: string

definition PosixShareMem_ctor ::
  "string option \<Rightarrow> char \<Rightarrow> nat \<Rightarrow> world \<Rightarrow> (exn + PosixShareMem) \<times> world" where
  "PosixShareMem_ctor name mode junk w =
     (case name of
        None \<Rightarrow> (Inl Logic_error, w)
      | Some n \<Rightarrow>
          if trans_mode mode < 0 then (Inl (Invalid_argument ''name or mode error''), w)
          else (let (r, w') = sys (Sys_shm_open n (trans_mode mode) 438) w
                in if rv r < 0 then (Inl (Runtime_error ''shm_open error''), w')
                   else (Inr \<lparr>shm_addr = 0, shm_fd = rv r, shm_len = junk, shm_name = n\<rparr>, w')))"

definition PosixShareMem_unmap :: "PosixShareMem \<Rightarrow> world \<Rightarrow> PosixShareMem \<times> world" where
  "PosixShareMem_unmap m w =
     (if shm_addr m \<noteq> 0 then (m, snd (sys (Sys_munmap (shm_addr m) (shm_len m)) w))
      else (m, w))"

definition PosixShareMem_destroy :: "PosixShareMem \<Rightarrow> world \<Rightarrow> PosixShareMem \<times> world" where
  "PosixShareMem_destroy m w =
     (let (m1, w1) = PosixShareMem_unmap m w
      in if shm_name m1 \<noteq> [] then (m1, snd (sys (Sys_shm_unlink (shm_name m1)) w1))
         else (m1, w1))"

section \<open>The deadline of a timed call, in the specification's words\<close>

text \<open>
  The specification describes the deadline of a timed send as the current time plus
  the timeout, as an absolute time in seconds and nanoseconds. \<open>spec_deadline\<close>
  follows those words (it is not taken from the source) and is compared with the
  \<open>timespec\<close> that \<open>PosixMsgQueue_write\<close> builds.
\<close>

definition spec_deadline :: "timespec \<Rightarrow> int \<Rightarrow> timespec" where
  "spec_deadline now wait =
     (let ns = snd now + (wait mod 1000) * 1000000
      in (fst now + wait div 1000 + ns div 1000000000, ns mod 1000000000))"

section \<open>Sample inputs\<close>

text \<open>
  \<open>kernel_const v\<close> answers every call with return value \<open>v\<close>, reports descriptor
  \<open>v\<close> as signalled and hands out the descriptors \<open>v\<close> and \<open>v + 1\<close>. \<open>world0 v\<close>
  is a fresh run against it, on 13 September 2020. \<open>queue0\<close> is the open queue of
  test/ipc.cc with the default maximum message size.
\<close>

definition kernel_const :: "int \<Rightarrow> syscall list \<Rightarrow> syscall \<Rightarrow> reply" where
  "kernel_const v tr c = \<lparr>rv = v, rset = {v}, rpair = (v, v + 1)\<rparr>"

definition world0 :: "int \<Rightarrow> world" where
  "world0 v = \<lparr>calls = [], kernel = kernel_const v, clock = (1600000000, 0)\<rparr>"

definition queue0 :: PosixMsgQueue where
  "queue0 = \<lparr>mq_fd = 3, mq_path = ''/ipc_test'', mq_maxmsg = 8192\<rparr>"

text \<open>
  \<open>kernel_pipe\<close> is the kernel of the scenario of test/ipc.cc: descriptor 4 is
  ready, a \<open>write\<close> takes all its bytes, a \<open>read\<close> delivers the 11 bytes of
  "hello world".
\<close>

definition kernel_pipe :: "syscall list \<Rightarrow> syscall \<Rightarrow> reply" where
  "kernel_pipe tr c =
     (case c of
        Sys_select n r wr e t \<Rightarrow> \<lparr>rv = 1, rset = {4}, rpair = (0, 0)\<rparr>
      | Sys_write fd d n \<Rightarrow> \<lparr>rv = int n, rset = {}, rpair = (0, 0)\<rparr>
      | Sys_read fd d n \<Rightarrow> \<lparr>rv = 11, rset = {}, rpair = (0, 0)\<rparr>
      | _ \<Rightarrow> \<lparr>rv = - 1, rset = {}, rpair = (0, 0)\<rparr>)"

definition world_pipe :: world where
  "world_pipe = \<lparr>calls = [], kernel = kernel_pipe, clock = (1600000000, 0)\<rparr>"

section \<open>Arithmetic of the conversions\<close>

lemma to_int_id: "fits_int v \<Longrightarrow> to_int v = v"
  by (simp add: to_int_def fits_int_def)

lemma c_div_nonneg: "0 \<le> a \<Longrightarrow> c_div a 1000 = a div 1000"
  by (cases "a = 0") (simp_all add: c_div_def)

lemma c_mod_nonneg: "0 \<le> a \<Longrightarrow> c_mod a 1000 = a mod 1000"
  by (simp add: c_mod_def c_div_nonneg minus_mult_div_eq_mod)

lemma trans_mode_neg:
  "trans_mode mode < 0 \<longleftrightarrow> mode \<notin> {CHR ''r'', CHR ''a'', CHR ''w'', CHR ''m'', CHR ''d''}"
  by (simp add: trans_mode_def O_RDONLY_def O_WRONLY_def O_RDWR_def O_CREAT_def O_TRUNC_def
      O_APPEND_def)

section \<open>The readiness probe\<close>

lemma wait_write_eq:
  "wait_write fd wait w =
     (let c = Sys_select (fd + 1) None (Some {fd}) None
                (if wait \<ge> 0 then Some (wait div 1000, wait mod 1000 * 1000) else None);
          r = kernel w (calls w) c
      in (if rv r < 0 then - 1 else if rv r = 0 then 0 else if fd \<in> rset r then 1 else 0,
          w\<lparr>calls := calls w @ [c]\<rparr>))"
  by (simp add: wait_write_def sys_def Let_def c_div_nonneg c_mod_nonneg)

lemma wait_read_eq:
  "wait_read fd wait w =
     (let c = Sys_select (fd + 1) (Some {fd}) None None
                (if wait \<ge> 0 then Some (wait div 1000, wait mod 1000 * 1000) else None);
          r = kernel w (calls w) c
      in (if rv r < 0 then - 1 else if rv r = 0 then 0 else if fd \<in> rset r then 1 else 0,
          w\<lparr>calls := calls w @ [c]\<rparr>))"
  by (simp add: wait_read_def sys_def Let_def c_div_nonneg c_mod_nonneg)

lemma wait_write_range: "fst (wait_write fd wait w) \<in> {- 1, 0, 1}"
  by (simp add: wait_write_eq Let_def)

lemma wait_read_range: "fst (wait_read fd wait w) \<in> {- 1, 0, 1}"
  by (simp add: wait_read_eq Let_def)

text \<open>
  Claim C5. On a descriptor \<open>fd\<close> that a descriptor set can hold, \<open>wait_write\<close> and
  \<open>wait_read\<close> issue one \<open>select\<close> on the set that holds \<open>fd\<close> alone. Its timeout argument \<open>tv\<close> is the null pointer when \<open>wait\<close> is
  negative (no deadline), \<open>{0, 0}\<close> when \<open>wait\<close> is 0 (return at once), and for a
  positive \<open>wait\<close> the seconds and microseconds that make up exactly \<open>wait\<close>
  milliseconds. The result is -1 exactly when \<open>select\<close> fails, 0 when it returns 0
  (no descriptor ready), and 1 when it returns a positive count with \<open>fd\<close> in the
  signalled set.
\<close>

theorem wait_probe_outcome:
  fixes fd wait :: int and w :: world
  defines "tv \<equiv> (if wait < 0 then None else Some (wait div 1000, wait mod 1000 * 1000))"
  defines "cw \<equiv> Sys_select (fd + 1) None (Some {fd}) None tv"
  defines "cr \<equiv> Sys_select (fd + 1) (Some {fd}) None None tv"
  defines "rw \<equiv> kernel w (calls w) cw"
  defines "rr \<equiv> kernel w (calls w) cr"
  assumes "0 \<le> fd" and "fd < FD_SETSIZE"
  shows "snd (wait_write fd wait w) = w\<lparr>calls := calls w @ [cw]\<rparr>
       \<and> snd (wait_read fd wait w) = w\<lparr>calls := calls w @ [cr]\<rparr>
       \<and> (wait < 0 \<longrightarrow> tv = None)
       \<and> (wait = 0 \<longrightarrow> tv = Some (0, 0))
       \<and> (0 < wait \<longrightarrow> (\<exists>s us. tv = Some (s, us) \<and> 0 \<le> s \<and> 0 \<le> us \<and> us < 1000000
                              \<and> s * 1000000 + us = wait * 1000))
       \<and> (fst (wait_write fd wait w) = - 1 \<longleftrightarrow> rv rw < 0)
       \<and> (rv rw = 0 \<longrightarrow> fst (wait_write fd wait w) = 0)
       \<and> (0 < rv rw \<and> fd \<in> rset rw \<longrightarrow> fst (wait_write fd wait w) = 1)
       \<and> (0 < rv rw \<and> fd \<notin> rset rw \<longrightarrow> fst (wait_write fd wait w) = 0)
       \<and> (fst (wait_read fd wait w) = - 1 \<longleftrightarrow> rv rr < 0)
       \<and> (rv rr = 0 \<longrightarrow> fst (wait_read fd wait w) = 0)
       \<and> (0 < rv rr \<and> fd \<in> rset rr \<longrightarrow> fst (wait_read fd wait w) = 1)
       \<and> (0 < rv rr \<and> fd \<notin> rset rr \<longrightarrow> fst (wait_read fd wait w) = 0)"
proof -
  have tv_eq: "(if wait \<ge> 0 then Some (wait div 1000, wait mod 1000 * 1000) else None) = tv"
    by (simp add: tv_def)
  have W: "wait_write fd wait w =
      (if rv rw < 0 then - 1 else if rv rw = 0 then 0 else if fd \<in> rset rw then 1 else 0,
       w\<lparr>calls := calls w @ [cw]\<rparr>)"
    unfolding wait_write_eq tv_eq by (simp add: Let_def rw_def cw_def)
  have R: "wait_read fd wait w =
      (if rv rr < 0 then - 1 else if rv rr = 0 then 0 else if fd \<in> rset rr then 1 else 0,
       w\<lparr>calls := calls w @ [cr]\<rparr>)"
    unfolding wait_read_eq tv_eq by (simp add: Let_def rr_def cr_def)
  have T: "0 < wait \<longrightarrow> (\<exists>s us. tv = Some (s, us) \<and> 0 \<le> s \<and> 0 \<le> us \<and> us < 1000000
                              \<and> s * 1000000 + us = wait * 1000)"
  proof
    assume p: "0 < wait"
    have "(wait div 1000) * 1000 + wait mod 1000 = wait" by simp
    then have "(wait div 1000) * 1000000 + wait mod 1000 * 1000 = wait * 1000" by linarith
    moreover have "0 \<le> wait mod 1000" "wait mod 1000 < 1000" by simp_all
    moreover have "0 \<le> wait div 1000" using p by simp
    ultimately show "\<exists>s us. tv = Some (s, us) \<and> 0 \<le> s \<and> 0 \<le> us \<and> us < 1000000
                              \<and> s * 1000000 + us = wait * 1000"
      using p by (simp add: tv_def)
  qed
  show ?thesis
    using T by (simp add: W R tv_def)
qed

theorem wait_probe_outcome_witness:
  "wait_write 3 1500 (world0 3)
     = (1, (world0 3)\<lparr>calls := [Sys_select 4 None (Some {3}) None (Some (1, 500000))]\<rparr>)
 \<and> wait_read 3 0 (world0 0)
     = (0, (world0 0)\<lparr>calls := [Sys_select 4 (Some {3}) None None (Some (0, 0))]\<rparr>)
 \<and> wait_read 3 (- 1) (world0 (- 1))
     = (- 1, (world0 (- 1))\<lparr>calls := [Sys_select 4 (Some {3}) None None None]\<rparr>)"
  using wait_probe_outcome [where fd = 3 and wait = 1500 and w = "world0 3"]
        wait_probe_outcome [where fd = 3 and wait = 0 and w = "world0 0"]
        wait_probe_outcome [where fd = 3 and wait = "- 1" and w = "world0 (- 1)"]
  by (simp add: world0_def kernel_const_def prod_eq_iff FD_SETSIZE_def)

section \<open>Guarded read and write\<close>

text \<open>
  Claim C1. On a descriptor that a descriptor set can hold, \<open>ipc::write\<close> first runs the probe \<open>wait_write\<close> under the caller's
  timeout, which yields -1, 0 or 1. On -1 (probe error) the call returns -1 and on 0
  (timeout) it returns 0, in both cases with the probe's \<open>select\<close> as the only call
  issued. On 1 (ready) exactly one \<open>write\<close> is issued after the probe and the call
  returns that call's result: \<open>kw\<close> converted to the function's return type
  \<open>int\<close>, which is \<open>kw\<close> itself for every result in the range of \<open>int\<close>, so -1
  on failure and every byte count up to \<open>INT_MAX\<close>. \<open>ipc::read\<close> does the same with
  \<open>wait_read\<close> and \<open>read\<close>.
\<close>

theorem guarded_io:
  fixes fd wait :: int and data len :: nat and w :: world
  defines "tv \<equiv> (if wait < 0 then None else Some (wait div 1000, wait mod 1000 * 1000))"
  defines "pw \<equiv> fst (wait_write fd wait w)" and "w1 \<equiv> snd (wait_write fd wait w)"
  defines "pr \<equiv> fst (wait_read fd wait w)" and "w2 \<equiv> snd (wait_read fd wait w)"
  defines "kw \<equiv> rv (kernel w1 (calls w1) (Sys_write fd data len))"
  defines "kr \<equiv> rv (kernel w2 (calls w2) (Sys_read fd data len))"
  assumes "0 \<le> fd" and "fd < FD_SETSIZE"
  shows "calls w1 = calls w @ [Sys_select (fd + 1) None (Some {fd}) None tv]
       \<and> (pw = - 1 \<or> pw = 0 \<or> pw = 1)
       \<and> (pw = - 1 \<longrightarrow> ipc_write fd data len wait w = (- 1, w1))
       \<and> (pw = 0 \<longrightarrow> ipc_write fd data len wait w = (0, w1))
       \<and> (pw = 1 \<longrightarrow> ipc_write fd data len wait w
                        = (to_int kw, w1\<lparr>calls := calls w1 @ [Sys_write fd data len]\<rparr>))
       \<and> (pw = 1 \<and> fits_int kw \<longrightarrow> fst (ipc_write fd data len wait w) = kw)
       \<and> calls w2 = calls w @ [Sys_select (fd + 1) (Some {fd}) None None tv]
       \<and> (pr = - 1 \<or> pr = 0 \<or> pr = 1)
       \<and> (pr = - 1 \<longrightarrow> ipc_read fd data len wait w = (- 1, w2))
       \<and> (pr = 0 \<longrightarrow> ipc_read fd data len wait w = (0, w2))
       \<and> (pr = 1 \<longrightarrow> ipc_read fd data len wait w
                        = (to_int kr, w2\<lparr>calls := calls w2 @ [Sys_read fd data len]\<rparr>))
       \<and> (pr = 1 \<and> fits_int kr \<longrightarrow> fst (ipc_read fd data len wait w) = kr)"
proof -
  have tv_eq: "(if wait \<ge> 0 then Some (wait div 1000, wait mod 1000 * 1000) else None) = tv"
    by (simp add: tv_def)
  have C1: "calls w1 = calls w @ [Sys_select (fd + 1) None (Some {fd}) None tv]"
    unfolding w1_def wait_write_eq tv_eq by (simp add: Let_def)
  have C2: "calls w2 = calls w @ [Sys_select (fd + 1) (Some {fd}) None None tv]"
    unfolding w2_def wait_read_eq tv_eq by (simp add: Let_def)
  have A: "pw = - 1 \<or> pw = 0 \<or> pw = 1"
    using wait_write_range [of fd wait w] by (simp add: pw_def)
  have B: "pr = - 1 \<or> pr = 0 \<or> pr = 1"
    using wait_read_range [of fd wait w] by (simp add: pr_def)
  have W: "ipc_write fd data len wait w =
      (if pw = 1 then (to_int kw, w1\<lparr>calls := calls w1 @ [Sys_write fd data len]\<rparr>)
       else if pw < 0 then (- 1, w1) else (0, w1))"
    by (simp add: ipc_write_def sys_def pw_def w1_def kw_def split_beta Let_def)
  have R: "ipc_read fd data len wait w =
      (if pr = 1 then (to_int kr, w2\<lparr>calls := calls w2 @ [Sys_read fd data len]\<rparr>)
       else if pr < 0 then (- 1, w2) else (0, w2))"
    by (simp add: ipc_read_def sys_def pr_def w2_def kr_def split_beta Let_def)
  show ?thesis
    using A B C1 C2 by (auto simp: W R to_int_id)
qed

theorem guarded_io_witness:
  "ipc_write 4 0 11 3000 world_pipe
     = (11, world_pipe\<lparr>calls := [Sys_select 5 None (Some {4}) None (Some (3, 0)),
                                 Sys_write 4 0 11]\<rparr>)
 \<and> ipc_read 4 0 512 4000 world_pipe
     = (11, world_pipe\<lparr>calls := [Sys_select 5 (Some {4}) None None (Some (4, 0)),
                                 Sys_read 4 0 512]\<rparr>)
 \<and> ipc_write 4 0 11 3000 (world0 0)
     = (0, (world0 0)\<lparr>calls := [Sys_select 5 None (Some {4}) None (Some (3, 0))]\<rparr>)
 \<and> ipc_read 4 0 512 (- 1) (world0 (- 1))
     = (- 1, (world0 (- 1))\<lparr>calls := [Sys_select 5 (Some {4}) None None None]\<rparr>)"
  using guarded_io [where fd = 4 and data = 0 and len = 11 and wait = 3000 and w = world_pipe]
        guarded_io [where fd = 4 and data = 0 and len = 512 and wait = 4000 and w = world_pipe]
        guarded_io [where fd = 4 and data = 0 and len = 11 and wait = 3000 and w = "world0 0"]
        guarded_io [where fd = 4 and data = 0 and len = 512 and wait = "- 1"
          and w = "world0 (- 1)"]
  by (simp add: world_pipe_def kernel_pipe_def world0_def kernel_const_def
      wait_write_eq wait_read_eq Let_def fits_int_def to_int_def prod_eq_iff FD_SETSIZE_def)

section \<open>Handles that are not open\<close>

text \<open>
  Claim C7. \<open>read\<close> and \<open>write\<close> of Pipe, Fifo and PosixMsgQueue on a handle whose
  descriptor is invalid (negative) return -1 at once and leave the world as it was:
  no call is issued, so nothing can block. That covers a handle after \<open>close\<close>
  (for Pipe also after \<open>close_w\<close> or \<open>close_r\<close> alone, on that end) and a Fifo that
  was constructed and never opened.
\<close>

theorem invalid_handle_io:
  "(pipe1 p < 0 \<longrightarrow> Pipe_write p data len wait w = (- 1, w))
 \<and> (pipe0 p < 0 \<longrightarrow> Pipe_read p data len wait w = (- 1, w))
 \<and> (Fifo_fd f < 0 \<longrightarrow>
        Fifo_write f data len wait w = (- 1, w) \<and> Fifo_read f data len wait w = (- 1, w))
 \<and> (mq_fd q < 0 \<longrightarrow> PosixMsgQueue_write q data len wait w = (- 1, w)
                    \<and> PosixMsgQueue_read q data len wait w = (- 1, w))
 \<and> Pipe_write (fst (Pipe_close p w0)) data len wait w = (- 1, w)
 \<and> Pipe_read (fst (Pipe_close p w0)) data len wait w = (- 1, w)
 \<and> Pipe_write (fst (Pipe_close_w p w0)) data len wait w = (- 1, w)
 \<and> Pipe_read (fst (Pipe_close_r p w0)) data len wait w = (- 1, w)
 \<and> Fifo_write (fst (Fifo_close f w0)) data len wait w = (- 1, w)
 \<and> Fifo_read (fst (Fifo_close f w0)) data len wait w = (- 1, w)
 \<and> PosixMsgQueue_write (fst (PosixMsgQueue_close q w0)) data len wait w = (- 1, w)
 \<and> PosixMsgQueue_read (fst (PosixMsgQueue_close q w0)) data len wait w = (- 1, w)
 \<and> (fst (Fifo_ctor path mode w0) = Inr f \<longrightarrow>
        Fifo_write f data len wait w = (- 1, w) \<and> Fifo_read f data len wait w = (- 1, w))"
  by (auto simp: Pipe_write_def Pipe_read_def Fifo_write_def Fifo_read_def
      PosixMsgQueue_write_def PosixMsgQueue_read_def Pipe_close_def Pipe_close_w_def
      Pipe_close_r_def Fifo_close_def PosixMsgQueue_close_def Fifo_ctor_def IPC_INVALID_FD_def
      Let_def split_beta split: option.splits if_splits)

theorem invalid_handle_io_witness:
  "Pipe_write \<lparr>pipe0 = 3, pipe1 = - 1\<rparr> 0 11 (- 1) world_pipe = (- 1, world_pipe)
 \<and> Pipe_read \<lparr>pipe0 = - 1, pipe1 = - 1\<rparr> 0 512 (- 1) world_pipe = (- 1, world_pipe)
 \<and> fst (Fifo_ctor (Some ''/tmp/f'') (CHR ''d'') (world0 0))
     = Inr \<lparr>Fifo_path = ''/tmp/f'', Fifo_fd = - 1\<rparr>
 \<and> Fifo_write \<lparr>Fifo_path = ''/tmp/f'', Fifo_fd = - 1\<rparr> 0 11 (- 1) world_pipe = (- 1, world_pipe)
 \<and> Fifo_read \<lparr>Fifo_path = ''/tmp/f'', Fifo_fd = - 1\<rparr> 0 11 (- 1) world_pipe = (- 1, world_pipe)
 \<and> PosixMsgQueue_write (queue0\<lparr>mq_fd := - 1\<rparr>) 0 11 (- 1) world_pipe = (- 1, world_pipe)
 \<and> PosixMsgQueue_read (queue0\<lparr>mq_fd := - 1\<rparr>) 0 11 (- 1) world_pipe = (- 1, world_pipe)"
  using invalid_handle_io [where p = "\<lparr>pipe0 = 3, pipe1 = - 1\<rparr>" and data = 0 and len = 11
          and wait = "- 1" and w = world_pipe
          and f = "\<lparr>Fifo_path = ''/tmp/f'', Fifo_fd = - 1\<rparr>" and q = "queue0\<lparr>mq_fd := - 1\<rparr>"
          and w0 = "world0 0" and path = "Some ''/tmp/f''" and mode = "CHR ''d''"]
        invalid_handle_io [where p = "\<lparr>pipe0 = - 1, pipe1 = - 1\<rparr>" and data = 0 and len = 512
          and wait = "- 1" and w = world_pipe]
  by (simp add: Fifo_ctor_def trans_mode_def O_RDWR_def O_CREAT_def O_APPEND_def sys_def
      world0_def kernel_const_def IPC_INVALID_FD_def)

section \<open>PosixMsgQueue: what reaches the kernel\<close>

lemma mq_write_eq:
  "PosixMsgQueue_write q data len wait w =
     (if mq_fd q < 0 then (- 1, w)
      else (let c = (if wait < 0 then Sys_mq_send (mq_fd q) data len SC_MQ_PRIO_MAX
                     else Sys_mq_timedsend (mq_fd q) data len SC_MQ_PRIO_MAX
                            (wait div 1000, wait mod 1000 * 1000))
            in (if rv (kernel w (calls w) c) < 0 then - 1 else to_int (int len),
                w\<lparr>calls := calls w @ [c]\<rparr>)))"
  by (simp add: PosixMsgQueue_write_def sys_def Let_def c_div_nonneg c_mod_nonneg)

lemma mq_read_eq:
  "PosixMsgQueue_read q data len wait w =
     (if mq_fd q < 0 \<or> mq_maxmsg q < len then (- 1, w)
      else (let c = (if wait < 0 then Sys_mq_receive (mq_fd q) data (mq_maxmsg q)
                     else Sys_mq_timedreceive (mq_fd q) data (mq_maxmsg q)
                            (wait div 1000, wait mod 1000 * 1000))
            in (to_int (rv (kernel w (calls w) c)), w\<lparr>calls := calls w @ [c]\<rparr>)))"
  by (simp add: PosixMsgQueue_read_def sys_def Let_def c_div_nonneg c_mod_nonneg)

text \<open>
  The \<open>timespec\<close> of a timed send depends on \<open>wait\<close> alone: whatever the clock
  reads, the same value is handed to \<open>mq_timedsend\<close>.
\<close>

lemma timed_send_ignores_clock:
  "0 \<le> wait \<Longrightarrow> 0 \<le> mq_fd q \<Longrightarrow>
   calls (snd (PosixMsgQueue_write q data len wait (w\<lparr>clock := t\<rparr>)))
     = calls w @ [Sys_mq_timedsend (mq_fd q) data len SC_MQ_PRIO_MAX
                    (wait div 1000, wait mod 1000 * 1000)]"
  by (simp add: mq_write_eq Let_def)

text \<open>
  Claim C2 says that a write with \<open>timeout >= 0\<close> is bounded by the absolute deadline
  "current time plus timeout". At 1600000000 s on the clock, a write with a timeout
  of 1500 ms hands \<open>mq_timedsend\<close> the \<open>timespec\<close> \<open>{1, 500000}\<close>: the timeout
  itself, its milliseconds scaled to microseconds and stored as nanoseconds. The
  deadline in the claim's words is \<open>{1600000001, 500000000}\<close>.
\<close>

theorem timed_send_deadline:
  "snd (PosixMsgQueue_write queue0 0 11 1500 (world0 0))
     = (world0 0)\<lparr>calls := [Sys_mq_timedsend 3 0 11 SC_MQ_PRIO_MAX (1, 500000)]\<rparr>
 \<and> clock (world0 0) = (1600000000, 0)
 \<and> spec_deadline (clock (world0 0)) 1500 = (1600000001, 500000000)"
  by (simp add: mq_write_eq queue0_def world0_def kernel_const_def spec_deadline_def Let_def)

text \<open>
  Claim C8, as amended. A write with \<open>timeout < 0\<close> on an open queue issues exactly
  one \<open>mq_send\<close> (the call without a deadline) whose priority argument is the
  constant \<open>_SC_MQ_PRIO_MAX\<close>; it returns -1 when the send fails and otherwise
  \<open>len\<close> converted to \<open>int\<close>, which is \<open>len\<close> for every \<open>len\<close> up to
  \<open>INT_MAX\<close>.
\<close>

theorem blocking_send:
  assumes "wait < 0" and "0 \<le> mq_fd q"
  shows "snd (PosixMsgQueue_write q data len wait w)
           = w\<lparr>calls := calls w @ [Sys_mq_send (mq_fd q) data len SC_MQ_PRIO_MAX]\<rparr>
       \<and> fst (PosixMsgQueue_write q data len wait w)
           = (if rv (kernel w (calls w) (Sys_mq_send (mq_fd q) data len SC_MQ_PRIO_MAX)) < 0
              then - 1 else to_int (int len))
       \<and> (len \<le> 2147483647 \<longrightarrow> to_int (int len) = int len)"
  using assms by (simp add: mq_write_eq Let_def to_int_id fits_int_def)

theorem blocking_send_witness:
  "PosixMsgQueue_write queue0 0 11 (- 1) (world0 0)
     = (11, (world0 0)\<lparr>calls := [Sys_mq_send 3 0 11 SC_MQ_PRIO_MAX]\<rparr>)
 \<and> fst (PosixMsgQueue_write queue0 0 11 (- 1) (world0 (- 1))) = - 1"
  using blocking_send [where q = queue0 and data = 0 and len = 11 and wait = "- 1"
          and w = "world0 0"]
        blocking_send [where q = queue0 and data = 0 and len = 11 and wait = "- 1"
          and w = "world0 (- 1)"]
  by (simp add: queue0_def world0_def kernel_const_def prod_eq_iff)

text \<open>
  Claim C8 as stated fails: the blocking send of the 11 bytes of test/ipc.cc goes out
  with priority 28, the value of \<open>_SC_MQ_PRIO_MAX\<close>, not with the minimum priority 0.
\<close>

theorem blocking_send_priority_counterexample:
  "calls (snd (PosixMsgQueue_write queue0 0 11 (- 1) (world0 0))) = [Sys_mq_send 3 0 11 28]
 \<and> calls (snd (PosixMsgQueue_write queue0 0 11 (- 1) (world0 0)))
     \<noteq> [Sys_mq_send 3 0 11 MQ_PRIO_MIN]"
  by (simp add: mq_write_eq queue0_def world0_def kernel_const_def SC_MQ_PRIO_MAX_def
      MQ_PRIO_MIN_def Let_def)

text \<open>
  Claim C4, as amended. On an open queue, a read whose \<open>len\<close> exceeds the configured
  maximum message size returns -1 with no call issued. A read or a write whose
  \<open>len\<close> does not exceed the maximum, equal to it or not, is accepted: it issues its
  one receive or send call and returns by that call's result.
\<close>

theorem msgqueue_length_checks:
  fixes q :: PosixMsgQueue and data len :: nat and wait :: int and w :: world
  defines "cs \<equiv> (if wait < 0 then Sys_mq_send (mq_fd q) data len SC_MQ_PRIO_MAX
                  else Sys_mq_timedsend (mq_fd q) data len SC_MQ_PRIO_MAX
                         (wait div 1000, wait mod 1000 * 1000))"
  defines "cr \<equiv> (if wait < 0 then Sys_mq_receive (mq_fd q) data (mq_maxmsg q)
                  else Sys_mq_timedreceive (mq_fd q) data (mq_maxmsg q)
                         (wait div 1000, wait mod 1000 * 1000))"
  assumes "0 \<le> mq_fd q"
  shows "(mq_maxmsg q < len \<longrightarrow> PosixMsgQueue_read q data len wait w = (- 1, w))
       \<and> (len \<le> mq_maxmsg q \<longrightarrow>
             PosixMsgQueue_read q data len wait w
               = (to_int (rv (kernel w (calls w) cr)), w\<lparr>calls := calls w @ [cr]\<rparr>))
       \<and> (len \<le> mq_maxmsg q \<longrightarrow>
             PosixMsgQueue_write q data len wait w
               = (if rv (kernel w (calls w) cs) < 0 then - 1 else to_int (int len),
                  w\<lparr>calls := calls w @ [cs]\<rparr>))"
  using assms by (simp add: mq_write_eq mq_read_eq Let_def)

theorem msgqueue_length_checks_witness:
  "PosixMsgQueue_read queue0 0 8193 0 (world0 0) = (- 1, world0 0)
 \<and> PosixMsgQueue_read queue0 0 8192 (- 1) (world0 8192)
     = (8192, (world0 8192)\<lparr>calls := [Sys_mq_receive 3 0 8192]\<rparr>)
 \<and> PosixMsgQueue_write queue0 0 8192 (- 1) (world0 0)
     = (8192, (world0 0)\<lparr>calls := [Sys_mq_send 3 0 8192 SC_MQ_PRIO_MAX]\<rparr>)"
  using msgqueue_length_checks [where q = queue0 and data = 0 and len = 8193 and wait = 0
          and w = "world0 0"]
        msgqueue_length_checks [where q = queue0 and data = 0 and len = 8192 and wait = "- 1"
          and w = "world0 8192"]
        msgqueue_length_checks [where q = queue0 and data = 0 and len = 8192 and wait = "- 1"
          and w = "world0 0"]
  by (simp add: queue0_def world0_def kernel_const_def to_int_def)

text \<open>
  Claim C4 as stated fails: the two calls of test/ipc.cc, a write and a read of 11
  bytes with the default timeout 0 on the queue whose maximum message size is 8192,
  have a length that disagrees with the maximum, and neither is rejected: each issues
  its call and returns the 11 bytes the kernel reports.
\<close>

theorem short_length_accepted_counterexample:
  "mq_maxmsg queue0 = 8192
 \<and> PosixMsgQueue_write queue0 0 11 0 (world0 0)
     = (11, (world0 0)\<lparr>calls := [Sys_mq_timedsend 3 0 11 SC_MQ_PRIO_MAX (0, 0)]\<rparr>)
 \<and> PosixMsgQueue_read queue0 0 11 0 (world0 11)
     = (11, (world0 11)\<lparr>calls := [Sys_mq_timedreceive 3 0 8192 (0, 0)]\<rparr>)"
  by (simp add: mq_write_eq mq_read_eq queue0_def world0_def kernel_const_def to_int_def
      Let_def)

text \<open>
  \<open>write\<close> has no test of \<open>len\<close> where \<open>read\<close> has one: a message of 8193 bytes
  for the same queue is handed to \<open>mq_send\<close>, and the -1 returned is the kernel's
  answer.
\<close>

lemma oversized_write_unchecked:
  "PosixMsgQueue_write queue0 0 8193 (- 1) (world0 (- 1))
     = (- 1, (world0 (- 1))\<lparr>calls := [Sys_mq_send 3 0 8193 SC_MQ_PRIO_MAX]\<rparr>)"
  by (simp add: mq_write_eq queue0_def world0_def kernel_const_def Let_def)

text \<open>
  Claim C10. A read on an open queue with \<open>0 < len < maxmsg_\<close> issues exactly one
  receive call, \<open>mq_receive\<close> for a negative timeout and \<open>mq_timedreceive\<close>
  otherwise, whose buffer-length argument is \<open>maxmsg_\<close> and not the caller's
  \<open>len\<close>; the call returns what the kernel reports to have stored, converted to
  \<open>int\<close>. The kernel may therefore store up to \<open>maxmsg_\<close> bytes in a buffer of
  \<open>len\<close> bytes.
\<close>

theorem short_read_buffer:
  fixes q :: PosixMsgQueue and data len :: nat and wait :: int and w :: world
  defines "c \<equiv> (if wait < 0 then Sys_mq_receive (mq_fd q) data (mq_maxmsg q)
                 else Sys_mq_timedreceive (mq_fd q) data (mq_maxmsg q)
                        (wait div 1000, wait mod 1000 * 1000))"
  assumes "0 \<le> mq_fd q" and "0 < len" and "len < mq_maxmsg q"
  shows "snd (PosixMsgQueue_read q data len wait w) = w\<lparr>calls := calls w @ [c]\<rparr>
       \<and> c \<noteq> (if wait < 0 then Sys_mq_receive (mq_fd q) data len
                else Sys_mq_timedreceive (mq_fd q) data len
                       (wait div 1000, wait mod 1000 * 1000))
       \<and> fst (PosixMsgQueue_read q data len wait w) = to_int (rv (kernel w (calls w) c))"
  using assms by (simp add: mq_read_eq Let_def)

theorem short_read_buffer_witness:
  "PosixMsgQueue_read queue0 0 11 (- 1) (world0 8192)
     = (8192, (world0 8192)\<lparr>calls := [Sys_mq_receive 3 0 8192]\<rparr>)"
  using short_read_buffer [where q = queue0 and data = 0 and len = 11 and wait = "- 1"
          and w = "world0 8192"]
  by (simp add: queue0_def world0_def kernel_const_def to_int_def prod_eq_iff)

section \<open>Mode characters\<close>

text \<open>
  Fifo's constructor, \<open>Fifo::open\<close> and PosixShareMem's constructor test
  \<open>trans_mode(mode) < 0\<close> first and fail with the world untouched.
\<close>

lemma mode_checked_siblings:
  assumes "trans_mode mode < 0"
  shows "Fifo_ctor (Some p) mode w = (Inl (Invalid_argument ''path or mode error''), w)"
    and "Fifo_open f mode w = ((False, f), w)"
    and "PosixShareMem_ctor (Some p) mode junk w
           = (Inl (Invalid_argument ''name or mode error''), w)"
  using assms by (simp_all add: Fifo_ctor_def Fifo_open_def PosixShareMem_ctor_def)

text \<open>
  PosixMsgQueue's constructor has no such test: for a mode that \<open>trans_mode\<close> does not
  know it calls \<open>mq_open\<close> with the flags -1.
\<close>

lemma msgqueue_ctor_unchecked:
  assumes "trans_mode mode < 0"
  shows "snd (PosixMsgQueue_ctor (Some p) mode maxmsg srv w)
           = w\<lparr>calls := calls w @ [Sys_mq_open p (- 1) 438 (to_long (int maxmsg)) 20]\<rparr>"
  using assms
  by (simp add: PosixMsgQueue_ctor_def trans_mode_def sys_def Let_def split_beta
      O_RDONLY_def O_WRONLY_def O_RDWR_def O_CREAT_def O_TRUNC_def O_APPEND_def
      split: if_splits)

text \<open>
  Claim C3 says that every operation taking a mode character rejects a character
  outside r, a, w, m, d before any system call. Constructing a PosixMsgQueue with the
  mode \<open>x\<close> issues \<open>mq_open\<close> with the flags -1, and where the kernel answers with a
  descriptor the construction succeeds.
\<close>

theorem msgqueue_bad_mode:
  "trans_mode (CHR ''x'') = - 1
 \<and> PosixMsgQueue_ctor (Some ''/ipc_test'') (CHR ''x'') 8192 False (world0 3)
     = (Inr \<lparr>mq_fd = 3, mq_path = ''/ipc_test'', mq_maxmsg = 8192\<rparr>,
        (world0 3)\<lparr>calls := [Sys_mq_open ''/ipc_test'' (- 1) 438 8192 20]\<rparr>)"
  by (simp add: PosixMsgQueue_ctor_def trans_mode_def sys_def world0_def kernel_const_def
      to_long_def)

section \<open>Releasing twice\<close>

text \<open>
  \<open>close\<close> of Pipe, Fifo, PosixMsgQueue and NameSem tests the handle first: on an
  instance already closed it issues no call and changes nothing.
\<close>

lemma guarded_close_idem:
  "Pipe_close (fst (Pipe_close p w)) w' = (fst (Pipe_close p w), w')"
  "Fifo_close (fst (Fifo_close f w)) w' = (fst (Fifo_close f w), w')"
  "PosixMsgQueue_close (fst (PosixMsgQueue_close q w)) w' = (fst (PosixMsgQueue_close q w), w')"
  "NameSem_close (fst (NameSem_close s w)) w' = (fst (NameSem_close s w), w')"
  by (simp_all add: Pipe_close_def Pipe_close_w_def Pipe_close_r_def Fifo_close_def
      PosixMsgQueue_close_def NameSem_close_def IPC_INVALID_FD_def Let_def split_beta)

text \<open>
  \<open>destroy\<close> and \<open>unlink\<close> repeat the removal of the name and drop its result; the
  instance stays as the first call left it. \<open>unmap\<close> never changes the instance: on
  a constructed PosixShareMem (whose \<open>addr_\<close> is null) it issues no call, and where
  \<open>addr_\<close> is not null it does not clear it, so a second \<open>unmap\<close> repeats \<open>munmap\<close>
  on the same range.
\<close>

lemma destroy_again:
  "PosixMsgQueue_destroy (fst (PosixMsgQueue_destroy q w)) w'
     = (fst (PosixMsgQueue_destroy q w), w'\<lparr>calls := calls w' @ [Sys_mq_unlink (mq_path q)]\<rparr>)"
  "NameSem_unlink (fst (NameSem_unlink s w)) w'
     = (fst (NameSem_unlink s w), w'\<lparr>calls := calls w' @ [Sys_sem_unlink (ns_name s)]\<rparr>)"
  by (simp_all add: PosixMsgQueue_destroy_def PosixMsgQueue_close_def NameSem_unlink_def
      NameSem_close_def sys_def IPC_INVALID_FD_def Let_def split_beta)

lemma unmap_keeps_instance:
  "fst (PosixShareMem_unmap m w) = m"
  "fst (PosixShareMem_destroy m w) = m"
  "shm_addr m = 0 \<Longrightarrow> PosixShareMem_unmap m w = (m, w)"
  "shm_addr m \<noteq> 0 \<Longrightarrow>
     PosixShareMem_unmap (fst (PosixShareMem_unmap m w)) w'
       = (m, w'\<lparr>calls := calls w' @ [Sys_munmap (shm_addr m) (shm_len m)]\<rparr>)"
  by (simp_all add: PosixShareMem_unmap_def PosixShareMem_destroy_def sys_def Let_def
      split_beta)

text \<open>
  \<open>Sem::close\<close> has no test: every call runs \<open>sem_destroy\<close>, which returns 0 and
  leaves the member alone, and then zero-fills the member.
\<close>

lemma sem_close_eq: "Sem_close x = Returns (x\<lparr>Sem_sem := Uninit\<rparr>)"
  by (simp add: Sem_close_def sem_destroy_def)

text \<open>
  Claim C6. For every primitive, \<open>close\<close>, \<open>unmap\<close> and \<open>destroy\<close> (for NameSem,
  \<open>unlink\<close>) called on the instance that a first such call left behind return
  normally, none of them has an error to report, and leave the instance exactly as the
  first call left it. \<open>close\<close> of Pipe (and \<open>close_r\<close>, \<open>close_w\<close>), Fifo,
  PosixMsgQueue and NameSem then issue no call at all; \<open>Sem::close\<close> returns with the
  member zero-filled as before; \<open>destroy\<close> and \<open>unlink\<close> issue the removal of the name
  again and drop its result; \<open>unmap\<close> issues no call on a null \<open>addr_\<close>, which is
  what every constructed PosixShareMem holds, and otherwise repeats \<open>munmap\<close> and
  drops its result.
\<close>

theorem release_twice:
  "Pipe_close (fst (Pipe_close p w)) w' = (fst (Pipe_close p w), w')
 \<and> Pipe_close_r (fst (Pipe_close_r p w)) w' = (fst (Pipe_close_r p w), w')
 \<and> Pipe_close_w (fst (Pipe_close_w p w)) w' = (fst (Pipe_close_w p w), w')
 \<and> Fifo_close (fst (Fifo_close f w)) w' = (fst (Fifo_close f w), w')
 \<and> PosixMsgQueue_close (fst (PosixMsgQueue_close q w)) w' = (fst (PosixMsgQueue_close q w), w')
 \<and> PosixMsgQueue_destroy (fst (PosixMsgQueue_destroy q w)) w'
     = (fst (PosixMsgQueue_destroy q w), w'\<lparr>calls := calls w' @ [Sys_mq_unlink (mq_path q)]\<rparr>)
 \<and> NameSem_close (fst (NameSem_close s w)) w' = (fst (NameSem_close s w), w')
 \<and> NameSem_unlink (fst (NameSem_unlink s w)) w'
     = (fst (NameSem_unlink s w), w'\<lparr>calls := calls w' @ [Sys_sem_unlink (ns_name s)]\<rparr>)
 \<and> Sem_close x = Returns (x\<lparr>Sem_sem := Uninit\<rparr>)
 \<and> Sem_close (x\<lparr>Sem_sem := Uninit\<rparr>) = Returns (x\<lparr>Sem_sem := Uninit\<rparr>)
 \<and> PosixShareMem_unmap (fst (PosixShareMem_unmap m w)) w'
     = (fst (PosixShareMem_unmap m w),
        if shm_addr m \<noteq> 0
        then w'\<lparr>calls := calls w' @ [Sys_munmap (shm_addr m) (shm_len m)]\<rparr> else w')
 \<and> fst (PosixShareMem_destroy (fst (PosixShareMem_destroy m w)) w')
     = fst (PosixShareMem_destroy m w)
 \<and> calls (snd (PosixShareMem_destroy (fst (PosixShareMem_destroy m w)) w'))
     = calls w' @ (if shm_addr m \<noteq> 0 then [Sys_munmap (shm_addr m) (shm_len m)] else [])
                @ (if shm_name m \<noteq> [] then [Sys_shm_unlink (shm_name m)] else [])"
proof -
  have pipe_ends:
    "Pipe_close_r (fst (Pipe_close_r p w)) w' = (fst (Pipe_close_r p w), w')"
    "Pipe_close_w (fst (Pipe_close_w p w)) w' = (fst (Pipe_close_w p w), w')"
    by (simp_all add: Pipe_close_r_def Pipe_close_w_def IPC_INVALID_FD_def Let_def)
  have unmap2: "PosixShareMem_unmap (fst (PosixShareMem_unmap m w)) w'
     = (fst (PosixShareMem_unmap m w),
        if shm_addr m \<noteq> 0
        then w'\<lparr>calls := calls w' @ [Sys_munmap (shm_addr m) (shm_len m)]\<rparr> else w')"
    by (simp add: PosixShareMem_unmap_def sys_def)
  have destroy2: "fst (PosixShareMem_destroy (fst (PosixShareMem_destroy m w)) w')
     = fst (PosixShareMem_destroy m w)"
    by (simp add: unmap_keeps_instance)
  have destroy_calls:
    "calls (snd (PosixShareMem_destroy (fst (PosixShareMem_destroy m w)) w'))
     = calls w' @ (if shm_addr m \<noteq> 0 then [Sys_munmap (shm_addr m) (shm_len m)] else [])
                @ (if shm_name m \<noteq> [] then [Sys_shm_unlink (shm_name m)] else [])"
    by (simp add: unmap_keeps_instance PosixShareMem_destroy_def PosixShareMem_unmap_def
        sys_def Let_def split_beta)
  have sem2: "Sem_close (x\<lparr>Sem_sem := Uninit\<rparr>) = Returns (x\<lparr>Sem_sem := Uninit\<rparr>)"
    by (simp add: sem_close_eq)
  show ?thesis
    by (simp only: guarded_close_idem destroy_again pipe_ends sem_close_eq [of x] sem2 unmap2
        destroy2 destroy_calls simp_thms)
qed

section \<open>The semaphore scenario\<close>

text \<open>
  Claim C9. A newly constructed Sem, shared or not, holds the count 1. On it
  \<open>sem_p(true)\<close> returns true without blocking and leaves the count 0; then
  \<open>sem_p(false)\<close> returns false; then \<open>sem_v()\<close> returns true and restores the
  count 1, after which \<open>sem_p\<close>, blocking or not, returns true.
\<close>

theorem sem_scenario:
  "Sem_ctor shared = Returns (Inr \<lparr>Sem_sem = Live 1\<rparr>)
 \<and> Sem_sem_p \<lparr>Sem_sem = Live 1\<rparr> True = Returns (True, \<lparr>Sem_sem = Live 0\<rparr>)
 \<and> Sem_sem_p \<lparr>Sem_sem = Live 0\<rparr> False = Returns (False, \<lparr>Sem_sem = Live 0\<rparr>)
 \<and> Sem_sem_v \<lparr>Sem_sem = Live 0\<rparr> = Returns (True, \<lparr>Sem_sem = Live 1\<rparr>)
 \<and> Sem_sem_p \<lparr>Sem_sem = Live 1\<rparr> block = Returns (True, \<lparr>Sem_sem = Live 0\<rparr>)"
  by (simp add: Sem_ctor_def Sem_sem_p_def Sem_sem_v_def SEM_VALUE_MAX_def)

end
